theory Spec2Isabelle
  imports Main "HOL-Library.Word" "HOL-Library.Sublist"
begin

section \<open>The lilliput example program (examples/main.go)\<close>

text \<open>
  The program reads an encoded image from a file or a URL, asks the lilliput codec
  library to recognise it, reads its header, resizes and re-encodes it, and writes the
  result to a file. Everything the program does apart from choosing names, formats and
  sizes is a call into a collaborator (the file system, the HTTP client, the codec
  library). The model therefore takes the collaborators as an environment of functions
  and returns, for one call of \<open>resize\<close>, the updated package-level variables and
  the trace of the calls made, each with the result it gave.
\<close>

subsection \<open>Data\<close>

type_synonym byte = "8 word"
type_synonym bytes = "byte list"

text \<open>A Go \<open>error\<close> value, identified by its message.\<close>
type_synonym error = string

text \<open>An open decoder of the codec library, identified by a handle.\<close>
type_synonym decoder = nat

text \<open>
  The part of \<open>*http.Response\<close> the program can observe. \<open>Body\<close> is what
  \<open>ioutil.ReadAll(resp.Body)\<close> gives: all the bytes, or the error that interrupts the
  read. \<open>StatusCode\<close> is the field the HTTP client fills in; the program never reads it.
  \<open>Unread\<close> is the number of bytes of the body that the HTTP client itself has not
  read when \<open>client.Get\<close> returns.
\<close>
record response =
  StatusCode :: int
  Body :: "error + bytes"
  Unread :: nat

text \<open>
  The two results of \<open>client.Get\<close>. By the contract of \<open>net/http\<close> the error is nil
  exactly when a response was received, whatever its status code (a non-2xx status is no
  error); with an error, a response may or may not come along. A response that comes
  with an error is the one at which the client gave up following redirects: the client
  has closed its body already, after reading it only if it announced at most 2 KiB.
\<close>
datatype get_result =
    GetOk response
  | GetErr "response option" error

fun resp_of :: "get_result \<Rightarrow> response option" where
  "resp_of (GetOk resp) = Some resp"
| "resp_of (GetErr resp err) = resp"

text \<open>\<open>lilliput.ImageHeader\<close>, as far as \<open>Width()\<close> and \<open>Height()\<close> show it.\<close>
record image_header =
  width :: int
  height :: int

datatype resize_method = ImageOpsFit | ImageOpsResize

text \<open>\<open>lilliput.ImageOptions\<close>, the fields set at lines 133-140.\<close>
record image_options =
  FileType :: string
  Width :: int
  Height :: int
  ResizeMethod :: resize_method
  NormalizeOrientation :: bool
  EncodeOptions :: "int \<rightharpoonup> int"

text \<open>
  The result of \<open>os.Stat\<close> as line 154 reads it: the file is there (nil error), the
  error is one \<open>os.IsNotExist\<close> accepts, or it is another error.
\<close>
datatype stat_result = Exists | NotExist | StatError error

text \<open>The package-level variables of lines 23-29, set from the command line.\<close>
record globals =
  inputFilename :: string
  outputWidth :: int
  outputHeight :: int
  outputFilename :: string
  stretch :: bool
  runs :: int
  remoteInput :: string

text \<open>
  The option keys of the codec library (\<open>lilliput.JpegQuality\<close>,
  \<open>lilliput.PngCompression\<close>, \<open>lilliput.WebpQuality\<close>): integer constants declared
  outside examples/main.go, taken as parameters.
\<close>
record lilliput_keys =
  JpegQuality :: int
  PngCompression :: int
  WebpQuality :: int

text \<open>The collaborators: file system, HTTP client and codec library.\<close>
record env =
  keys :: lilliput_keys
  ReadFile :: "string \<Rightarrow> error + bytes"
  Get :: "string \<Rightarrow> get_result"
  NewDecoder :: "bytes \<Rightarrow> error + decoder"
  Header :: "decoder \<Rightarrow> error + image_header"
  Description :: "decoder \<Rightarrow> string"
  Duration :: "decoder \<Rightarrow> int"
  Transform :: "decoder \<Rightarrow> image_options \<Rightarrow> nat \<Rightarrow> error + bytes"
  Stat :: "string \<Rightarrow> stat_result"
  WriteFile :: "string \<Rightarrow> bytes \<Rightarrow> nat \<Rightarrow> error option"

text \<open>What the program prints, by the \<open>Printf\<close> call and its arguments.\<close>
datatype msg =
    NoInput
  | ReadFileFailed error
  | ReadRemoteFailed error
  | DecodeFailed error
  | HeaderFailed error
  | FileTypeIs string
  | Dimensions int int
  | DurationIs int
  | TransformFailed error
  | OutputExists string
  | WriteFailed error
  | Written string

text \<open>The calls one invocation makes, each with its arguments and its result.\<close>
datatype event =
    EPrintf msg
  | EUsage
  | EReadFile string "error + bytes"
  | EGet string get_result
  | EReadAll response "error + bytes"
  | EBodyClose response
  | ENewDecoder bytes "error + decoder"
  | EHeader decoder "error + image_header"
  | ENewImageOps nat
  | ETransform decoder image_options nat "error + bytes"
  | EStat string stat_result
  | EWriteFile string bytes nat "error option"
  | EOpsClose
  | EDecoderClose decoder
  | EWgDone

subsection \<open>Library functions on strings\<close>

text \<open>\<open>strconv\<close>'s decimal rendering of an \<open>int\<close>, which \<open>fmt.Sprint\<close> uses.\<close>

definition digit_char :: "nat \<Rightarrow> char" where
  "digit_char n = ''0123456789'' ! (n mod 10)"

function digits :: "nat \<Rightarrow> string" where
  "digits n = (if n < 10 then [digit_char n] else digits (n div 10) @ [digit_char n])"
  by pat_completeness auto
termination
  by (relation "measure id") auto

declare digits.simps [simp del]

definition Itoa :: "int \<Rightarrow> string" where
  "Itoa i = (if i < 0 then CHR ''-'' # digits (nat (- i)) else digits (nat i))"

text \<open>
  Reading a decimal numeral back, as \<open>strconv.Atoi\<close> does on the strings \<open>Itoa\<close>
  gives: the value of the digits, negated after a minus sign.
\<close>
definition digit_value :: "char \<Rightarrow> nat" where
  "digit_value c = of_char c - 48"

definition decimal_value :: "string \<Rightarrow> nat" where
  "decimal_value s = foldl (\<lambda>acc c. 10 * acc + digit_value c) 0 s"

definition Atoi :: "string \<Rightarrow> int" where
  "Atoi s =
     (case s of
        [] \<Rightarrow> 0
      | c # cs \<Rightarrow> if c = CHR ''-'' then - int (decimal_value cs) else int (decimal_value s))"

text \<open>
  \<open>fmt.Sprint(i, "-", name)\<close> for an int and two strings. Sprint puts a space between
  two operands only when neither is a string: here the middle operand is one, so the
  three renderings are joined as they are.
\<close>
definition Sprint :: "int \<Rightarrow> string \<Rightarrow> string \<Rightarrow> string" where
  "Sprint i a b = Itoa i @ a @ b"

text \<open>
  \<open>filepath.Ext\<close>: the suffix from the last dot of the last path element, empty when
  that element has no dot. The library scans from the end, stopping at a separator
  (\<open>/\<close>); \<open>ext_scan\<close> is that loop on the reversed path, \<open>acc\<close> the characters
  already passed.
\<close>
fun ext_scan :: "string \<Rightarrow> string \<Rightarrow> string" where
  "ext_scan [] acc = []"
| "ext_scan (c # cs) acc =
     (if c = CHR ''/'' then []
      else if c = CHR ''.'' then c # acc
      else ext_scan cs (c # acc))"

definition Ext :: "string \<Rightarrow> string" where
  "Ext path = ext_scan (rev path) []"

text \<open>\<open>strings.ToLower\<close> on the ASCII labels the decoder gives (JPEG, PNG, ...).\<close>
definition lower_char :: "char \<Rightarrow> char" where
  "lower_char c =
     (let n = (of_char c :: nat) in if 65 \<le> n \<and> n \<le> 90 then char_of (n + 32) else c)"

definition ToLower :: "string \<Rightarrow> string" where
  "ToLower s = map lower_char s"

subsection \<open>The table of encode options (lines 17-21)\<close>

definition EncodeOptionsTable :: "lilliput_keys \<Rightarrow> string \<rightharpoonup> (int \<rightharpoonup> int)" where
  "EncodeOptionsTable k =
     [''.jpeg'' \<mapsto> [JpegQuality k \<mapsto> 85],
      ''.png'' \<mapsto> [PngCompression k \<mapsto> 7],
      ''.webp'' \<mapsto> [WebpQuality k \<mapsto> 85]]"

text \<open>
  \<open>EncodeOptions[outputType]\<close> (line 139): indexing a Go map with a key it does not
  hold gives the zero value, here the nil map, which has no entry.
\<close>
definition selectOptions :: "lilliput_keys \<Rightarrow> string \<Rightarrow> (int \<rightharpoonup> int)" where
  "selectOptions k outputType =
     (case EncodeOptionsTable k outputType of None \<Rightarrow> Map.empty | Some m \<Rightarrow> m)"

subsection \<open>readRemoteURL (lines 168-183)\<close>

text \<open>
  The deferred \<open>resp.Body.Close()\<close> is registered when the response is not nil and runs
  when the function returns, so its event ends the trace of every path.
\<close>
definition readRemoteURL :: "env \<Rightarrow> string \<Rightarrow> (error + bytes) \<times> event list" where
  "readRemoteURL e url =
     (let r = Get e url;
          deferred = (case resp_of r of None \<Rightarrow> [] | Some resp \<Rightarrow> [EBodyClose resp])
      in case r of
           GetErr _ err \<Rightarrow> (Inl err, EGet url r # deferred)
         | GetOk resp \<Rightarrow>
             (case Body resp of
                Inl err \<Rightarrow> (Inl err, [EGet url r, EReadAll resp (Inl err)] @ deferred)
              | Inr body \<Rightarrow> (Inr body, [EGet url r, EReadAll resp (Inr body)] @ deferred)))"

subsection \<open>resize (lines 51-166)\<close>

text \<open>Lines 149-152: the name of the file to write.\<close>
definition output_name :: "string \<Rightarrow> string \<Rightarrow> string" where
  "output_name outputFilename' inputFilename' =
     (if outputFilename' = [] then ''resized'' @ Ext inputFilename' else outputFilename')"

text \<open>Lines 149-165: the existence check and the write, with mode 0400.\<close>
definition resize_write :: "env \<Rightarrow> globals \<Rightarrow> string \<Rightarrow> bytes \<Rightarrow> event list" where
  "resize_write e g outputFilename' outputImg =
     (let name = output_name outputFilename' (inputFilename g);
          st = Stat e name
      in if st \<noteq> NotExist then [EStat name st, EPrintf (OutputExists name)]
         else (case WriteFile e name outputImg 256 of
                 Some err \<Rightarrow>
                   [EStat name st, EWriteFile name outputImg 256 (Some err),
                    EPrintf (WriteFailed err)]
               | None \<Rightarrow>
                   [EStat name st, EWriteFile name outputImg 256 None,
                    EPrintf (Written name)]))"

text \<open>Lines 113-118: the target format.\<close>
definition output_type :: "string \<Rightarrow> string \<Rightarrow> string" where
  "output_type description outputFilename' =
     (if outputFilename' \<noteq> [] then Ext outputFilename' else ''.'' @ ToLower description)"

text \<open>Lines 120-126: a width or height of 0 is replaced, in the package-level variable.\<close>
definition default_size :: "globals \<Rightarrow> image_header \<Rightarrow> globals" where
  "default_size g header =
     (let g1 = (if outputWidth g = 0 then g\<lparr>outputWidth := width header\<rparr> else g)
      in if outputHeight g1 = 0 then g1\<lparr>outputHeight := height header\<rparr> else g1)"

text \<open>Lines 128-140: the options handed to \<open>Transform\<close>.\<close>
definition transform_options :: "env \<Rightarrow> globals \<Rightarrow> string \<Rightarrow> image_options" where
  "transform_options e g outputType =
     \<lparr>FileType = outputType, Width = outputWidth g, Height = outputHeight g,
      ResizeMethod = (if stretch g then ImageOpsResize else ImageOpsFit),
      NormalizeOrientation = True,
      EncodeOptions = selectOptions (keys e) outputType\<rparr>"

text \<open>
  Lines 105-165: the image operations are created with a resize buffer of 8192, the
  output buffer has 50 MB, and the deferred \<open>ops.Close()\<close> ends every path from here.
\<close>
definition resize_transform ::
  "env \<Rightarrow> globals \<Rightarrow> string \<Rightarrow> decoder \<Rightarrow> image_header \<Rightarrow> globals \<times> event list" where
  "resize_transform e g outputFilename' dec header =
     (let outputType = output_type (Description e dec) outputFilename';
          g' = default_size g header;
          opts = transform_options e g' outputType;
          n = 50 * 1024 * 1024;
          r = Transform e dec opts n
      in case r of
           Inl err \<Rightarrow>
             (g', [ENewImageOps 8192, ETransform dec opts n r, EPrintf (TransformFailed err),
                   EOpsClose])
         | Inr outputImg \<Rightarrow>
             (g', [ENewImageOps 8192, ETransform dec opts n r]
                  @ resize_write e g' outputFilename' outputImg @ [EOpsClose]))"

text \<open>Lines 97-103: what is printed about the image.\<close>
definition print_info :: "env \<Rightarrow> decoder \<Rightarrow> image_header \<Rightarrow> event list" where
  "print_info e dec header =
     [EPrintf (FileTypeIs (Description e dec)),
      EPrintf (Dimensions (width header) (height header))]
     @ (if Duration e dec \<noteq> 0 then [EPrintf (DurationIs (Duration e dec))] else [])"

text \<open>Lines 89-103: the header.\<close>
definition resize_header ::
  "env \<Rightarrow> globals \<Rightarrow> string \<Rightarrow> decoder \<Rightarrow> globals \<times> event list" where
  "resize_header e g outputFilename' dec =
     (case Header e dec of
        Inl err \<Rightarrow> (g, [EHeader dec (Inl err), EPrintf (HeaderFailed err)])
      | Inr header \<Rightarrow>
          (let (g', tr) = resize_transform e g outputFilename' dec header
           in (g', EHeader dec (Inr header) # print_info e dec header @ tr)))"

text \<open>
  Lines 80-87: detection. The deferred \<open>decoder.Close()\<close> is registered once the
  decoder exists and runs when \<open>resize\<close> returns.
\<close>
definition resize_detect ::
  "env \<Rightarrow> globals \<Rightarrow> string \<Rightarrow> bytes \<Rightarrow> globals \<times> event list" where
  "resize_detect e g outputFilename' inputBuf =
     (case NewDecoder e inputBuf of
        Inl err \<Rightarrow> (g, [ENewDecoder inputBuf (Inl err), EPrintf (DecodeFailed err)])
      | Inr dec \<Rightarrow>
          (let (g', tr) = resize_header e g outputFilename' dec
           in (g', ENewDecoder inputBuf (Inr dec) # tr @ [EDecoderClose dec])))"

text \<open>
  Lines 51-78. Line 54 declares a local \<open>outputFilename\<close> that hides the package-level
  one for the rest of the function. The deferred \<open>wg.Done()\<close> of line 53 is the last
  thing every path does. When neither branch of lines 63-78 applies the buffer stays nil.
\<close>
definition resize :: "env \<Rightarrow> globals \<Rightarrow> int \<Rightarrow> globals \<times> event list" where
  "resize e g i =
     (let outputFilename' = Sprint i ''-'' (outputFilename g);
          (g', tr) =
            (if inputFilename g = [] \<and> remoteInput g = [] then (g, [EPrintf NoInput, EUsage])
             else if inputFilename g \<noteq> [] then
               (case ReadFile e (inputFilename g) of
                  Inl err \<Rightarrow>
                    (g, [EReadFile (inputFilename g) (Inl err), EPrintf (ReadFileFailed err)])
                | Inr inputBuf \<Rightarrow>
                    (let (g', tr) = resize_detect e g outputFilename' inputBuf
                     in (g', EReadFile (inputFilename g) (Inr inputBuf) # tr)))
             else if remoteInput g \<noteq> [] then
               (case readRemoteURL e (remoteInput g) of
                  (Inl err, tr0) \<Rightarrow> (g, tr0 @ [EPrintf (ReadRemoteFailed err)])
                | (Inr inputBuf, tr0) \<Rightarrow>
                    (let (g', tr) = resize_detect e g outputFilename' inputBuf
                     in (g', tr0 @ tr)))
             else resize_detect e g outputFilename' [])
      in (g', tr @ [EWgDone]))"

subsection \<open>Reading a trace\<close>

text \<open>The five steps of the pipeline, and the event that starts each.\<close>
datatype step = StepAcquire | StepDetect | StepHeader | StepTransform | StepWrite

fun step_of :: "event \<Rightarrow> step list" where
  "step_of (EReadFile name r) = [StepAcquire]"
| "step_of (EGet url r) = [StepAcquire]"
| "step_of (ENewDecoder buf r) = [StepDetect]"
| "step_of (EHeader dec r) = [StepHeader]"
| "step_of (ETransform dec opts n r) = [StepTransform]"
| "step_of (EWriteFile name img perm r) = [StepWrite]"
| "step_of _ = []"

definition steps :: "event list \<Rightarrow> step list" where
  "steps tr = concat (map step_of tr)"

definition all_steps :: "step list" where
  "all_steps = [StepAcquire, StepDetect, StepHeader, StepTransform, StepWrite]"

text \<open>A call that reported an error, or an existence check that did not say "absent".\<close>
fun failed :: "event \<Rightarrow> bool" where
  "failed (EReadFile name r) = isl r"
| "failed (EGet url r) = (case r of GetOk _ \<Rightarrow> False | GetErr _ _ \<Rightarrow> True)"
| "failed (EReadAll resp r) = isl r"
| "failed (ENewDecoder buf r) = isl r"
| "failed (EHeader dec r) = isl r"
| "failed (ETransform dec opts n r) = isl r"
| "failed (EStat name st) = (st \<noteq> NotExist)"
| "failed (EWriteFile name img perm r) = (r \<noteq> None)"
| "failed _ = False"

text \<open>What a returning invocation still does: print, and run its deferred calls.\<close>
fun winding_up :: "event \<Rightarrow> bool" where
  "winding_up (EPrintf m) = True"
| "winding_up (EBodyClose resp) = True"
| "winding_up EOpsClose = True"
| "winding_up (EDecoderClose dec) = True"
| "winding_up EWgDone = True"
| "winding_up _ = False"

text \<open>After a failed call the rest of the trace is winding up only.\<close>
fun stops_at_failure :: "event list \<Rightarrow> bool" where
  "stops_at_failure [] = True"
| "stops_at_failure (ev # tr) =
     ((if failed ev then list_all winding_up tr else True) \<and> stops_at_failure tr)"

text \<open>The calls made between detection and the decoder's release.\<close>
fun after_detection :: "event \<Rightarrow> bool" where
  "after_detection (EPrintf m) = True"
| "after_detection (EHeader dec r) = True"
| "after_detection (ENewImageOps n) = True"
| "after_detection (ETransform dec opts n r) = True"
| "after_detection (EStat name st) = True"
| "after_detection (EWriteFile name img perm r) = True"
| "after_detection EOpsClose = True"
| "after_detection _ = False"

text \<open>
  A body is drained when the fetch returns if the HTTP client had left nothing of it
  unread, or if the fetch read it to its end.
\<close>
fun reads_to_end :: "response \<Rightarrow> event \<Rightarrow> bool" where
  "reads_to_end resp (EReadAll resp' (Inr body)) = (resp' = resp)"
| "reads_to_end resp _ = False"

definition drained_at_return :: "response \<Rightarrow> event list \<Rightarrow> bool" where
  "drained_at_return resp tr = (Unread resp = 0 \<or> list_ex (reads_to_end resp) tr)"

text \<open>Network and file-system calls.\<close>
fun is_io :: "event \<Rightarrow> bool" where
  "is_io (EReadFile name r) = True"
| "is_io (EGet url r) = True"
| "is_io (EReadAll resp r) = True"
| "is_io (EBodyClose resp) = True"
| "is_io (EStat name st) = True"
| "is_io (EWriteFile name img perm r) = True"
| "is_io _ = False"

fun is_network :: "event \<Rightarrow> bool" where
  "is_network (EGet url r) = True"
| "is_network (EReadAll resp r) = True"
| "is_network (EBodyClose resp) = True"
| "is_network _ = False"

text \<open>The file names an invocation checks and writes.\<close>
fun file_names :: "event \<Rightarrow> string list" where
  "file_names (EStat name st) = [name]"
| "file_names (EWriteFile name img perm r) = [name]"
| "file_names _ = []"

text \<open>The options of the transform calls, and the buffers handed to the detector.\<close>
fun transform_opts :: "event \<Rightarrow> image_options list" where
  "transform_opts (ETransform dec opts n r) = [opts]"
| "transform_opts _ = []"

fun detected :: "event \<Rightarrow> bytes list" where
  "detected (ENewDecoder buf r) = [buf]"
| "detected _ = []"

subsection \<open>Sample runs\<close>

text \<open>
  An environment in which everything works: \<open>in.jpg\<close> holds a JPEG of 4000 by 3000,
  every URL answers 200 with the same bytes, and no output file exists yet.
\<close>
definition sample_keys :: lilliput_keys where
  "sample_keys = \<lparr>JpegQuality = 1, PngCompression = 16, WebpQuality = 64\<rparr>"

definition sample_env :: env where
  "sample_env =
     \<lparr>keys = sample_keys,
      ReadFile = (\<lambda>name. if name = ''in.jpg'' then Inr [0xFF, 0xD8] else Inl ''no such file''),
      Get = (\<lambda>url. GetOk \<lparr>StatusCode = 200, Body = Inr [0xFF, 0xD8], Unread = 2\<rparr>),
      NewDecoder = (\<lambda>buf. if buf = [0xFF, 0xD8] then Inr 1 else Inl ''unknown format''),
      Header = (\<lambda>dec. Inr \<lparr>width = 4000, height = 3000\<rparr>),
      Description = (\<lambda>dec. ''JPEG''),
      Duration = (\<lambda>dec. 0),
      Transform = (\<lambda>dec opts n. Inr [1, 2, 3]),
      Stat = (\<lambda>name. NotExist),
      WriteFile = (\<lambda>name img perm. None)\<rparr>"

text \<open>The server answers 404 with a short page; the HTTP client reports no error.\<close>
definition not_found :: response where
  "not_found = \<lparr>StatusCode = 404, Body = Inr [0x34, 0x30, 0x34], Unread = 3\<rparr>"

definition env_404 :: env where
  "env_404 = sample_env\<lparr>Get := (\<lambda>url. GetOk not_found)\<rparr>"

text \<open>
  The HTTP client gives up on a redirect: a response and an error together. The response
  announced a body of 3000 bytes, more than 2 KiB, so the client closed the body without
  reading it; a read would now fail.
\<close>
definition redirect :: response where
  "redirect =
     \<lparr>StatusCode = 302, Body = Inl ''http: read on closed response body'', Unread = 3000\<rparr>"

definition env_redirect :: env where
  "env_redirect = sample_env\<lparr>Get := (\<lambda>url. GetErr (Some redirect) ''stopped after 10 redirects'')\<rparr>"

text \<open>The command lines of the sample runs.\<close>
definition no_flags :: globals where
  "no_flags =
     \<lparr>inputFilename = [], outputWidth = 0, outputHeight = 0, outputFilename = [],
      stretch = False, runs = 1, remoteInput = []\<rparr>"

definition local_run :: globals where
  "local_run = no_flags\<lparr>inputFilename := ''in.jpg''\<rparr>"

definition local_png_run :: globals where
  "local_png_run = local_run\<lparr>outputFilename := ''out.png'', outputWidth := 800\<rparr>"

definition remote_run :: globals where
  "remote_run = no_flags\<lparr>remoteInput := ''http://host/a.jpg'', outputFilename := ''out.jpeg''\<rparr>"

definition both_run :: globals where
  "both_run = local_png_run\<lparr>remoteInput := ''http://host/a.jpg''\<rparr>"

text \<open>The options the run of \<open>local_png_run\<close> hands to \<open>Transform\<close>.\<close>
definition png_options :: image_options where
  "png_options =
     \<lparr>FileType = ''.png'', Width = 800, Height = 3000, ResizeMethod = ImageOpsFit,
      NormalizeOrientation = True, EncodeOptions = [16 \<mapsto> 7]\<rparr>"

section \<open>Properties\<close>

subsection \<open>Names and extensions\<close>

lemmas resize_defs =
  resize_def resize_detect_def resize_header_def print_info_def resize_transform_def
  resize_write_def readRemoteURL_def Let_def

lemma digit_char_in: "digit_char n \<in> set ''0123456789''"
proof -
  have "n mod 10 < length ''0123456789''" by simp
  then show ?thesis unfolding digit_char_def by (rule nth_mem)
qed

lemma digits_chars: "set (digits n) \<subseteq> set ''0123456789''"
proof (induction n rule: digits.induct)
  case (1 n)
  show ?case
  proof (cases "n < 10")
    case True
    then have "digits n = [digit_char n]" by (subst digits.simps) simp
    then show ?thesis using digit_char_in [of n] by simp
  next
    case False
    then have "digits n = digits (n div 10) @ [digit_char n]" by (subst digits.simps) simp
    then show ?thesis using 1 [OF False] digit_char_in [of n] by simp
  qed
qed

lemma digits_nonempty: "digits n \<noteq> []"
  by (subst digits.simps) simp

lemma Itoa_nonempty: "Itoa i \<noteq> []"
  by (simp add: Itoa_def digits_nonempty)

lemma Itoa_no_dot: "CHR ''.'' \<notin> set (Itoa i)"
  using digits_chars [of "nat i"] digits_chars [of "nat (- i)"]
  by (auto simp: Itoa_def)

lemma Sprint_nonempty: "Sprint i a b \<noteq> []"
  by (simp add: Sprint_def Itoa_nonempty)

text \<open>The rendering read back is the number rendered.\<close>

lemma digit_value_digit_char: "digit_value (digit_char n) = n mod 10"
proof -
  have "k < 10 \<Longrightarrow> digit_value (''0123456789'' ! k) = k" for k
    by (auto simp: less_Suc_eq numeral_eq_Suc digit_value_def)
  then show ?thesis by (simp add: digit_char_def)
qed

lemma decimal_value_snoc:
  "decimal_value (s @ [c]) = 10 * decimal_value s + digit_value c"
  by (simp add: decimal_value_def)

lemma decimal_value_digits: "decimal_value (digits n) = n"
proof (induction n rule: digits.induct)
  case (1 n)
  show ?case
  proof (cases "n < 10")
    case True
    then have "digits n = [digit_char n]" by (subst digits.simps) simp
    with True show ?thesis
      by (simp add: decimal_value_def digit_value_digit_char)
  next
    case False
    then have "digits n = digits (n div 10) @ [digit_char n]" by (subst digits.simps) simp
    with 1 [OF False] show ?thesis
      by (simp add: decimal_value_snoc digit_value_digit_char)
  qed
qed

lemma digits_no_minus: "CHR ''-'' \<notin> set (digits n)"
  using digits_chars [of n] by auto

lemma Atoi_digits: "Atoi (digits n) = int n"
proof (cases "digits n")
  case Nil
  then show ?thesis using digits_nonempty [of n] by simp
next
  case (Cons c cs)
  then have "c \<noteq> CHR ''-''" using digits_no_minus [of n] by auto
  with Cons show ?thesis
    using decimal_value_digits [of n] by (simp add: Atoi_def)
qed

lemma Atoi_Itoa: "Atoi (Itoa i) = i"
proof (cases "i < 0")
  case True
  then show ?thesis by (simp add: Itoa_def Atoi_def decimal_value_digits)
next
  case False
  then show ?thesis by (simp add: Itoa_def Atoi_digits)
qed

lemma Itoa_inject:
  assumes "Itoa i = Itoa j"
  shows "i = j"
proof -
  have "Atoi (Itoa i) = Atoi (Itoa j)" by (simp only: assms)
  then show ?thesis by (simp only: Atoi_Itoa)
qed

text \<open>A stretch without a dot, scanned last, adds nothing to the extension.\<close>

lemma ext_scan_plain: "CHR ''.'' \<notin> set ys \<Longrightarrow> ext_scan ys acc = []"
  by (induction ys arbitrary: acc) auto

lemma ext_scan_append:
  "CHR ''.'' \<notin> set ys \<Longrightarrow> ext_scan (xs @ ys) acc = ext_scan xs acc"
  by (induction xs arbitrary: acc) (auto simp: ext_scan_plain)

lemma Ext_prefix: "CHR ''.'' \<notin> set p \<Longrightarrow> Ext (p @ name) = Ext name"
  by (simp add: Ext_def ext_scan_append)

text \<open>The worker's prefix leaves the extension of the output name as it is.\<close>

lemma Ext_Sprint: "Ext (Sprint i ''-'' name) = Ext name"
proof -
  have "CHR ''.'' \<notin> set (Itoa i @ ''-'')" using Itoa_no_dot [of i] by simp
  then have "Ext ((Itoa i @ ''-'') @ name) = Ext name" by (rule Ext_prefix)
  then show ?thesis by (simp add: Sprint_def)
qed

subsection \<open>The trace of each part of \<open>resize\<close>\<close>

lemma transform_trace:
  "snd (resize_transform e g out dec h) =
     (let opts = transform_options e (default_size g h) (output_type (Description e dec) out);
          r = Transform e dec opts 52428800
      in [ENewImageOps 8192, ETransform dec opts 52428800 r]
         @ (case r of Inl err \<Rightarrow> [EPrintf (TransformFailed err)]
            | Inr img \<Rightarrow> resize_write e (default_size g h) out img)
         @ [EOpsClose])"
  by (simp add: resize_transform_def Let_def split: sum.splits)

lemma header_trace:
  "snd (resize_header e g out dec) =
     (case Header e dec of
        Inl err \<Rightarrow> [EHeader dec (Inl err), EPrintf (HeaderFailed err)]
      | Inr h \<Rightarrow> EHeader dec (Inr h) # print_info e dec h @ snd (resize_transform e g out dec h))"
  by (simp add: resize_header_def split: sum.splits prod.splits)

lemma detect_trace:
  "snd (resize_detect e g out buf) =
     (case NewDecoder e buf of
        Inl err \<Rightarrow> [ENewDecoder buf (Inl err), EPrintf (DecodeFailed err)]
      | Inr dec \<Rightarrow> ENewDecoder buf (Inr dec) # snd (resize_header e g out dec) @ [EDecoderClose dec])"
  by (simp add: resize_detect_def split: sum.splits prod.splits)

lemma remote_result:
  "fst (readRemoteURL e url) =
     (case Get e url of GetOk resp \<Rightarrow> Body resp | GetErr resp err \<Rightarrow> Inl err)"
  by (simp add: readRemoteURL_def Let_def split: get_result.splits sum.splits)

lemma remote_trace:
  "snd (readRemoteURL e url) =
     EGet url (Get e url)
     # (case Get e url of GetOk resp \<Rightarrow> [EReadAll resp (Body resp)] | GetErr resp err \<Rightarrow> [])
     @ (case resp_of (Get e url) of None \<Rightarrow> [] | Some resp \<Rightarrow> [EBodyClose resp])"
  by (simp add: readRemoteURL_def Let_def split: get_result.splits sum.splits option.splits)

lemma resize_trace:
  "snd (resize e g i) =
     (if inputFilename g = [] \<and> remoteInput g = [] then [EPrintf NoInput, EUsage]
      else if inputFilename g \<noteq> [] then
        EReadFile (inputFilename g) (ReadFile e (inputFilename g))
        # (case ReadFile e (inputFilename g) of
             Inl err \<Rightarrow> [EPrintf (ReadFileFailed err)]
           | Inr buf \<Rightarrow> snd (resize_detect e g (Sprint i ''-'' (outputFilename g)) buf))
      else
        snd (readRemoteURL e (remoteInput g))
        @ (case fst (readRemoteURL e (remoteInput g)) of
             Inl err \<Rightarrow> [EPrintf (ReadRemoteFailed err)]
           | Inr buf \<Rightarrow> snd (resize_detect e g (Sprint i ''-'' (outputFilename g)) buf)))
     @ [EWgDone]"
  by (simp add: resize_def Let_def split: sum.splits prod.splits)

text \<open>From the header on, the calls are the codec's, the file system's and prints.\<close>

lemma write_after: "list_all after_detection (resize_write e g out img)"
  by (simp add: resize_write_def Let_def split: option.splits)

lemma transform_after: "list_all after_detection (snd (resize_transform e g out dec h))"
  by (simp add: transform_trace Let_def write_after split: sum.splits)

lemma header_after: "list_all after_detection (snd (resize_header e g out dec))"
  by (simp add: header_trace print_info_def transform_after split: sum.splits)

lemma after_detection_event:
  "after_detection ev \<Longrightarrow>
     \<not> is_network ev \<and> ev \<noteq> EUsage \<and> detected ev = []
     \<and> (\<forall>d. ev \<noteq> EDecoderClose d) \<and> (\<forall>b r. ev \<noteq> ENewDecoder b r)"
  by (cases ev) simp_all

lemma after_no_network: "list_all after_detection tr \<Longrightarrow> filter is_network tr = []"
  by (induction tr) (auto dest: after_detection_event)

lemma after_no_usage: "list_all after_detection tr \<Longrightarrow> EUsage \<notin> set tr"
  by (induction tr) (auto dest: after_detection_event)

lemma after_no_detect: "list_all after_detection tr \<Longrightarrow> concat (map detected tr) = []"
  by (induction tr) (auto dest: after_detection_event)

lemma after_no_close: "list_all after_detection tr \<Longrightarrow> EDecoderClose d \<notin> set tr"
  by (induction tr) (auto dest: after_detection_event)

lemma after_no_open: "list_all after_detection tr \<Longrightarrow> ENewDecoder b r \<notin> set tr"
  by (induction tr) (auto dest: after_detection_event)

lemma detect_detected: "concat (map detected (snd (resize_detect e g out buf))) = [buf]"
  by (simp add: detect_trace after_no_detect [OF header_after] split: sum.splits)

lemma detect_no_network: "filter is_network (snd (resize_detect e g out buf)) = []"
  by (simp add: detect_trace after_no_network [OF header_after] split: sum.splits)

lemma detect_no_usage: "EUsage \<notin> set (snd (resize_detect e g out buf))"
  by (simp add: detect_trace after_no_usage [OF header_after] split: sum.splits)

lemma remote_no_detect: "concat (map detected (snd (readRemoteURL e url))) = []"
  by (cases "Get e url") (auto simp: remote_trace split: option.splits)

text \<open>The one call of \<open>Transform\<close>: its decoder's header was read, and its options are
  those of lines 113-140.\<close>

lemma transform_call_write: "ETransform dec opts n r \<notin> set (resize_write e g out img)"
  by (simp add: resize_write_def Let_def split: option.splits)

lemma transform_call_transform:
  "ETransform dec' opts n r \<in> set (snd (resize_transform e g out dec h)) \<Longrightarrow>
     dec' = dec
     \<and> opts = transform_options e (default_size g h) (output_type (Description e dec) out)"
  by (auto simp: transform_trace Let_def transform_call_write split: sum.splits)

lemma transform_call_header:
  "ETransform dec' opts n r \<in> set (snd (resize_header e g out dec)) \<Longrightarrow>
     dec' = dec
     \<and> (\<exists>h. Header e dec = Inr h
          \<and> opts = transform_options e (default_size g h) (output_type (Description e dec) out))"
  by (auto simp: header_trace print_info_def dest: transform_call_transform split: sum.splits)

lemma transform_call_detect:
  "ETransform dec opts n r \<in> set (snd (resize_detect e g out buf)) \<Longrightarrow>
     \<exists>h. Header e dec = Inr h
       \<and> opts = transform_options e (default_size g h) (output_type (Description e dec) out)"
  by (auto simp: detect_trace dest: transform_call_header split: sum.splits)

lemma transform_call_remote: "ETransform dec opts n r \<notin> set (snd (readRemoteURL e url))"
  by (cases "Get e url") (auto simp: remote_trace split: option.splits)

lemma transform_call:
  "ETransform dec opts n r \<in> set (snd (resize e g i)) \<Longrightarrow>
     \<exists>h. Header e dec = Inr h
       \<and> opts = transform_options e (default_size g h)
                  (output_type (Description e dec) (Sprint i ''-'' (outputFilename g)))"
  by (auto simp: resize_trace transform_call_remote dest: transform_call_detect
      split: sum.splits if_splits)

text \<open>The trace of the sample run that writes \<open>0-out.png\<close>.\<close>

lemma sample_png_trace:
  "snd (resize sample_env local_png_run 0) =
     [EReadFile ''in.jpg'' (Inr [0xFF, 0xD8]),
      ENewDecoder [0xFF, 0xD8] (Inr 1),
      EHeader 1 (Inr \<lparr>width = 4000, height = 3000\<rparr>),
      EPrintf (FileTypeIs ''JPEG''),
      EPrintf (Dimensions 4000 3000),
      ENewImageOps 8192,
      ETransform 1 png_options 52428800 (Inr [1, 2, 3]),
      EStat ''0-out.png'' NotExist,
      EWriteFile ''0-out.png'' [1, 2, 3] 256 None,
      EPrintf (Written ''0-out.png''),
      EOpsClose,
      EDecoderClose 1,
      EWgDone]"
  by (simp add: resize_defs local_png_run_def local_run_def no_flags_def sample_env_def
      sample_keys_def png_options_def output_type_def output_name_def default_size_def
      transform_options_def selectOptions_def EncodeOptionsTable_def
      Sprint_def Itoa_def digits.simps digit_char_def Ext_def)

text \<open>The only names checked and written are the one \<open>output_name\<close> gives.\<close>

lemma default_size_input: "inputFilename (default_size g h) = inputFilename g"
  by (simp add: default_size_def Let_def)

lemma write_names:
  "ev \<in> set (resize_write e g out img) \<Longrightarrow> name \<in> set (file_names ev) \<Longrightarrow>
     name = output_name out (inputFilename g)"
  by (auto simp: resize_write_def Let_def split: option.splits if_splits)

lemma transform_names:
  "ev \<in> set (snd (resize_transform e g out dec h)) \<Longrightarrow> name \<in> set (file_names ev) \<Longrightarrow>
     name = output_name out (inputFilename g)"
  by (auto simp: transform_trace Let_def default_size_input split: sum.splits
      dest: write_names [of ev e "default_size g h" out _ name])

lemma header_names:
  "ev \<in> set (snd (resize_header e g out dec)) \<Longrightarrow> name \<in> set (file_names ev) \<Longrightarrow>
     name = output_name out (inputFilename g)"
  by (auto simp: header_trace print_info_def split: sum.splits if_splits
      dest: transform_names)

lemma detect_names:
  "ev \<in> set (snd (resize_detect e g out buf)) \<Longrightarrow> name \<in> set (file_names ev) \<Longrightarrow>
     name = output_name out (inputFilename g)"
  by (auto simp: detect_trace split: sum.splits dest: header_names)

lemma remote_names:
  "ev \<in> set (snd (readRemoteURL e url)) \<Longrightarrow> file_names ev = []"
  by (cases "Get e url") (auto simp: remote_trace split: option.splits)

lemma resize_names:
  "ev \<in> set (snd (resize e g i)) \<Longrightarrow> name \<in> set (file_names ev) \<Longrightarrow>
     name = output_name (Sprint i ''-'' (outputFilename g)) (inputFilename g)"
  by (auto simp: resize_trace split: sum.splits if_splits
      dest: detect_names remote_names)

text \<open>The steps a part of \<open>resize\<close> takes are an initial stretch of the steps left.\<close>

lemma steps_Nil: "steps [] = []"
  by (simp add: steps_def)

lemma steps_Cons: "steps (ev # tr) = step_of ev @ steps tr"
  by (simp add: steps_def)

lemma steps_append: "steps (a @ b) = steps a @ steps b"
  by (simp add: steps_def)

lemmas steps_simps = steps_Nil steps_Cons steps_append

lemma write_steps: "prefix (steps (resize_write e g out img)) [StepWrite]"
  by (simp add: resize_write_def Let_def steps_simps split: option.splits)

lemma transform_steps:
  "prefix (steps (snd (resize_transform e g out dec h))) [StepTransform, StepWrite]"
  using write_steps [of e "default_size g h" out]
  by (simp add: transform_trace Let_def steps_simps split: sum.splits)

lemma header_steps:
  "prefix (steps (snd (resize_header e g out dec))) [StepHeader, StepTransform, StepWrite]"
  using transform_steps [of e g out dec]
  by (simp add: header_trace print_info_def steps_simps split: sum.splits)

lemma detect_steps:
  "prefix (steps (snd (resize_detect e g out buf)))
     [StepDetect, StepHeader, StepTransform, StepWrite]"
  using header_steps [of e g out]
  by (simp add: detect_trace steps_simps split: sum.splits)

lemma remote_steps: "steps (snd (readRemoteURL e url)) = [StepAcquire]"
  by (cases "Get e url") (auto simp: remote_trace steps_simps split: option.splits)

lemma resize_steps: "prefix (steps (snd (resize e g i))) all_steps"
  using detect_steps [of e g "Sprint i ''-'' (outputFilename g)"]
  by (simp add: resize_trace remote_steps steps_simps all_steps_def split: sum.splits)

text \<open>Deferred calls and prints after a trace do not change whether it stops at a failure.\<close>

lemma winding_up_not_failed: "winding_up ev \<Longrightarrow> \<not> failed ev"
  by (cases ev) simp_all

lemma winding_up_stops: "list_all winding_up tr \<Longrightarrow> stops_at_failure tr"
  by (induction tr) (auto dest: winding_up_not_failed)

lemma stops_append_winding:
  "list_all winding_up b \<Longrightarrow> stops_at_failure (a @ b) = stops_at_failure a"
  by (induction a) (auto simp: winding_up_stops)

lemma write_stops: "stops_at_failure (resize_write e g out img)"
  by (simp add: resize_write_def Let_def split: option.splits)

lemma transform_stops: "stops_at_failure (snd (resize_transform e g out dec h))"
  using write_stops [of e "default_size g h" out]
    stops_append_winding [of "[EOpsClose]"]
  by (simp add: transform_trace Let_def split: sum.splits)

lemma header_stops: "stops_at_failure (snd (resize_header e g out dec))"
  using transform_stops [of e g out dec]
  by (simp add: header_trace print_info_def split: sum.splits)

lemma detect_stops: "stops_at_failure (snd (resize_detect e g out buf))"
  using header_stops [of e g out] stops_append_winding [of "[EDecoderClose d]" for d]
  by (simp add: detect_trace split: sum.splits)

lemma resize_stops: "stops_at_failure (snd (resize e g i))"
proof -
  let ?out = "Sprint i ''-'' (outputFilename g)"
  have w: "stops_at_failure (a @ [EWgDone]) = stops_at_failure a" for a
    by (rule stops_append_winding) simp
  show ?thesis
  proof (cases "Get e (remoteInput g)")
    case (GetOk resp)
    then show ?thesis
      using detect_stops [of e g ?out]
      by (auto simp: resize_trace remote_trace remote_result w split: sum.splits)
  next
    case (GetErr resp err)
    then show ?thesis
      using detect_stops [of e g ?out]
      by (auto simp: resize_trace remote_trace remote_result w split: sum.splits option.splits)
  qed
qed

text \<open>The image written is the one \<open>Transform\<close> returned.\<close>

lemma write_blob:
  "EWriteFile name img' perm r \<in> set (resize_write e g out img) \<Longrightarrow> img' = img"
  by (auto simp: resize_write_def Let_def split: option.splits if_splits)

lemma transform_blob:
  "EWriteFile name img perm r \<in> set (snd (resize_transform e g out dec h)) \<Longrightarrow>
     \<exists>opts n. ETransform dec opts n (Inr img) \<in> set (snd (resize_transform e g out dec h))"
  by (auto simp: transform_trace Let_def split: sum.splits dest: write_blob)

lemma header_blob:
  "EWriteFile name img perm r \<in> set (snd (resize_header e g out dec)) \<Longrightarrow>
     \<exists>opts n. ETransform dec opts n (Inr img) \<in> set (snd (resize_header e g out dec))"
  by (auto simp: header_trace print_info_def split: sum.splits if_splits
      dest!: transform_blob)

lemma detect_blob:
  "EWriteFile name img perm r \<in> set (snd (resize_detect e g out buf)) \<Longrightarrow>
     \<exists>dec opts n. ETransform dec opts n (Inr img) \<in> set (snd (resize_detect e g out buf))"
  by (auto simp: detect_trace split: sum.splits dest!: header_blob)

lemma remote_no_write: "EWriteFile name img perm r \<notin> set (snd (readRemoteURL e url))"
  by (cases "Get e url") (auto simp: remote_trace split: option.splits)

lemma resize_blob:
  "EWriteFile name img perm r \<in> set (snd (resize e g i)) \<Longrightarrow>
     \<exists>dec opts n. ETransform dec opts n (Inr img) \<in> set (snd (resize e g i))"
  by (auto simp: resize_trace remote_no_write split: sum.splits if_splits dest!: detect_blob)

text \<open>Once the decoder exists, its close ends the trace of detection.\<close>

lemma detect_release:
  assumes "ENewDecoder b (Inr d) \<in> set (snd (resize_detect e g out buf))"
  shows "\<exists>pre. snd (resize_detect e g out buf) = pre @ [EDecoderClose d]
           \<and> (\<forall>d'. EDecoderClose d' \<notin> set pre)"
proof (cases "NewDecoder e buf")
  case (Inl err)
  with assms show ?thesis by (simp add: detect_trace)
next
  case (Inr dec)
  let ?hdr = "snd (resize_header e g out dec)"
  have tr: "snd (resize_detect e g out buf)
              = (ENewDecoder buf (Inr dec) # ?hdr) @ [EDecoderClose dec]"
    using Inr by (simp add: detect_trace)
  have "ENewDecoder b (Inr d) \<notin> set ?hdr"
    by (rule after_no_open [OF header_after])
  with assms have "d = dec" by (simp add: tr)
  moreover have "\<forall>d'. EDecoderClose d' \<notin> set (ENewDecoder buf (Inr dec) # ?hdr)"
    using after_no_close [OF header_after, of _ e g out dec] by simp
  ultimately show ?thesis using tr by blast
qed

lemma remote_no_decoder:
  "ENewDecoder b r \<notin> set (snd (readRemoteURL e url))
   \<and> EDecoderClose d \<notin> set (snd (readRemoteURL e url))"
  by (cases "Get e url") (auto simp: remote_trace split: option.splits)

lemma ToLower_JPEG: "ToLower ''JPEG'' = ''jpeg''"
  by code_simp

subsection \<open>Input selection\<close>

text \<open>
  C4. When neither an input file name nor a remote URL is given, the invocation prints
  the message, shows the usage and returns: its whole trace is these two calls and the
  deferred \<open>wg.Done()\<close>, so no file is read and no network request is made, and the
  package-level variables are left as they were.
\<close>

theorem usage_error_before_io:
  assumes "inputFilename g = []" and "remoteInput g = []"
  shows "resize e g i = (g, [EPrintf NoInput, EUsage, EWgDone])
         \<and> filter is_io (snd (resize e g i)) = []"
  using assms by (simp add: resize_def)

theorem usage_error_before_io_witness:
  "inputFilename no_flags = [] \<and> remoteInput no_flags = []
   \<and> resize sample_env no_flags 0 = (no_flags, [EPrintf NoInput, EUsage, EWgDone])
   \<and> filter is_io (snd (resize sample_env no_flags 0)) = []"
  using usage_error_before_io [of no_flags sample_env 0] by (simp add: no_flags_def)

text \<open>
  C9. When both an input file name and a remote URL are given, the invocation starts by
  reading the local file and makes no call to the HTTP client; it does not show the
  usage. If the file is read, its bytes are what the detector gets; if not, the detector
  is not called.
\<close>

theorem local_input_first:
  assumes "inputFilename g \<noteq> []" and "remoteInput g \<noteq> []"
  shows "hd (snd (resize e g i)) = EReadFile (inputFilename g) (ReadFile e (inputFilename g))
         \<and> filter is_network (snd (resize e g i)) = []
         \<and> EUsage \<notin> set (snd (resize e g i))
         \<and> concat (map detected (snd (resize e g i)))
             = (case ReadFile e (inputFilename g) of Inl err \<Rightarrow> [] | Inr buf \<Rightarrow> [buf])"
  using assms
  by (simp add: resize_trace detect_detected detect_no_network detect_no_usage
      split: sum.splits)

theorem local_input_first_witness:
  "inputFilename both_run \<noteq> [] \<and> remoteInput both_run \<noteq> []
   \<and> hd (snd (resize sample_env both_run 0)) = EReadFile ''in.jpg'' (Inr [0xFF, 0xD8])
   \<and> filter is_network (snd (resize sample_env both_run 0)) = []
   \<and> EUsage \<notin> set (snd (resize sample_env both_run 0))
   \<and> concat (map detected (snd (resize sample_env both_run 0))) = [[0xFF, 0xD8]]"
  using local_input_first [of both_run sample_env 0]
  by (simp add: both_run_def local_png_run_def local_run_def no_flags_def sample_env_def)

subsection \<open>Remote fetch\<close>

text \<open>
  C1, as the program has it. With a remote URL and no input file, the fetch returns an
  error exactly when \<open>client.Get\<close> reports one or reading the body fails; the status
  code of the response plays no part. On an error the detector is not called; otherwise
  the detector is called once, on the bytes of the body.
\<close>

theorem remote_fetch_error_halts:
  assumes "inputFilename g = []" and "remoteInput g \<noteq> []"
  shows "fst (readRemoteURL e (remoteInput g))
           = (case Get e (remoteInput g) of GetOk resp \<Rightarrow> Body resp
              | GetErr resp err \<Rightarrow> Inl err)
         \<and> concat (map detected (snd (resize e g i)))
           = (case fst (readRemoteURL e (remoteInput g)) of Inl err \<Rightarrow> [] | Inr buf \<Rightarrow> [buf])"
  using assms
  by (simp add: remote_result resize_trace remote_no_detect detect_detected
      split: sum.splits get_result.splits)

theorem remote_fetch_error_halts_witness:
  "inputFilename remote_run = [] \<and> remoteInput remote_run \<noteq> []
   \<and> fst (readRemoteURL env_redirect (remoteInput remote_run)) = Inl ''stopped after 10 redirects''
   \<and> concat (map detected (snd (resize env_redirect remote_run 0))) = []"
  using remote_fetch_error_halts [of remote_run env_redirect 0]
  by (simp add: remote_run_def no_flags_def env_redirect_def sample_env_def)

text \<open>
  The claim as the specification states it fails: a GET answered with status 404 is no
  error for the fetch, and the bytes of the 404 page are handed to the detector.
\<close>

theorem status_404_reaches_detector:
  "Get env_404 (remoteInput remote_run) = GetOk not_found
   \<and> StatusCode not_found = 404
   \<and> fst (readRemoteURL env_404 (remoteInput remote_run)) = Inr [0x34, 0x30, 0x34]
   \<and> snd (resize env_404 remote_run 0)
     = [EGet ''http://host/a.jpg'' (GetOk not_found),
        EReadAll not_found (Inr [0x34, 0x30, 0x34]),
        EBodyClose not_found,
        ENewDecoder [0x34, 0x30, 0x34] (Inl ''unknown format''),
        EPrintf (DecodeFailed ''unknown format''),
        EWgDone]"
  by (simp add: resize_defs remote_run_def no_flags_def env_404_def sample_env_def not_found_def)

text \<open>
  C7, as the program has it. Whenever \<open>client.Get\<close> gives a response, with or without
  an error, closing its body is the last thing the fetch does. The fetch reads the body
  only when no error came with the response, and reads it to its end exactly when the
  fetch succeeds. So the body is drained when the fetch returns exactly when the fetch
  succeeds or the HTTP client had left nothing of it unread.
\<close>

theorem body_closed_on_every_path:
  assumes "resp_of (Get e url) = Some resp"
  shows "last (snd (readRemoteURL e url)) = EBodyClose resp
         \<and> snd (readRemoteURL e url)
           = EGet url (Get e url)
             # (case Get e url of GetOk r \<Rightarrow> [EReadAll r (Body r)] | GetErr r err \<Rightarrow> [])
             @ [EBodyClose resp]
         \<and> ((\<exists>body. EReadAll resp (Inr body) \<in> set (snd (readRemoteURL e url)))
             = (\<exists>body. fst (readRemoteURL e url) = Inr body))
         \<and> drained_at_return resp (snd (readRemoteURL e url))
           = (Unread resp = 0 \<or> (\<exists>body. fst (readRemoteURL e url) = Inr body))"
proof (cases "Get e url")
  case (GetOk r)
  with assms have r: "r = resp" by simp
  show ?thesis
  proof (cases "Body resp")
    case (Inl err)
    with GetOk r show ?thesis
      by (simp add: remote_trace remote_result drained_at_return_def)
  next
    case (Inr body)
    with GetOk r show ?thesis
      by (simp add: remote_trace remote_result drained_at_return_def)
  qed
next
  case (GetErr r err)
  with assms show ?thesis
    by (simp add: remote_trace remote_result drained_at_return_def)
qed

theorem body_closed_on_every_path_witness:
  "resp_of (Get env_404 ''u'') = Some not_found
   \<and> last (snd (readRemoteURL env_404 ''u'')) = EBodyClose not_found
   \<and> snd (readRemoteURL env_404 ''u'')
     = [EGet ''u'' (GetOk not_found), EReadAll not_found (Inr [0x34, 0x30, 0x34]),
        EBodyClose not_found]
   \<and> fst (readRemoteURL env_404 ''u'') = Inr [0x34, 0x30, 0x34]
   \<and> drained_at_return not_found (snd (readRemoteURL env_404 ''u''))"
  using body_closed_on_every_path [of env_404 "''u''" not_found]
  by (simp add: readRemoteURL_def env_404_def sample_env_def not_found_def
      drained_at_return_def)

text \<open>
  The claim as the specification states it fails. After ten redirects the client gives
  up on a response that announces 3000 bytes: it closes the body unread and reports the
  response together with the error. The fetch closes the body again and returns the
  error; it reads nothing, so the 3000 bytes are never drained.
\<close>

theorem redirect_body_not_drained:
  "resp_of (Get env_redirect ''u'') = Some redirect
   \<and> Unread redirect = 3000
   \<and> readRemoteURL env_redirect ''u''
     = (Inl ''stopped after 10 redirects'',
        [EGet ''u'' (GetErr (Some redirect) ''stopped after 10 redirects''),
         EBodyClose redirect])
   \<and> \<not> drained_at_return redirect (snd (readRemoteURL env_redirect ''u''))"
  by (simp add: readRemoteURL_def env_redirect_def sample_env_def redirect_def
      drained_at_return_def)

subsection \<open>Target format, size and encode options\<close>

text \<open>
  C2, at the input on which the program departs from it. The run of \<open>local_run\<close>
  names no output file and the decoder describes the input as JPEG, so by the comment at
  lines 113-114 the target format should be \<open>.jpeg\<close>. The local name of line 54 is
  \<open>0-\<close>, not empty, so line 117 replaces the format by the extension of \<open>0-\<close>:
  the empty string.
\<close>

theorem no_output_name_loses_format:
  "outputFilename local_run = []
   \<and> ''.'' @ ToLower (Description sample_env 1) = ''.jpeg''
   \<and> map FileType (concat (map transform_opts (snd (resize sample_env local_run 0)))) = [[]]"
proof -
  have "Description sample_env 1 = ''JPEG''" by (simp add: sample_env_def)
  then have "''.'' @ ToLower (Description sample_env 1) = ''.jpeg''"
    by (simp add: ToLower_JPEG)
  moreover have
    "map FileType (concat (map transform_opts (snd (resize sample_env local_run 0)))) = [[]]"
    by (simp add: resize_defs local_run_def no_flags_def sample_env_def
        output_type_def output_name_def default_size_def transform_options_def
        Sprint_def Itoa_def digits.simps digit_char_def Ext_def)
  moreover have "outputFilename local_run = []"
    by (simp add: local_run_def no_flags_def)
  ultimately show ?thesis by simp
qed

text \<open>
  X1. On every run the target format handed to \<open>Transform\<close> is the extension of
  the output name the caller gave (empty when no name was given): the worker's prefix
  holds no dot, so it leaves the extension as it is.
\<close>

theorem target_format_is_extension:
  assumes "ETransform dec opts n r \<in> set (snd (resize e g i))"
  shows "FileType opts = Ext (outputFilename g)"
proof -
  from transform_call [OF assms] obtain h where
    "opts = transform_options e (default_size g h)
             (output_type (Description e dec) (Sprint i ''-'' (outputFilename g)))"
    by blast
  then show ?thesis
    by (simp add: transform_options_def output_type_def Sprint_nonempty Ext_Sprint)
qed

theorem target_format_is_extension_witness:
  "ETransform 1 png_options 52428800 (Inr [1, 2, 3])
     \<in> set (snd (resize sample_env local_png_run 0))
   \<and> FileType png_options = ''.png'' \<and> Ext (outputFilename local_png_run) = ''.png''"
proof -
  have call: "ETransform 1 png_options 52428800 (Inr [1, 2, 3])
                \<in> set (snd (resize sample_env local_png_run 0))"
    by (simp add: sample_png_trace)
  have "Ext (outputFilename local_png_run) = ''.png''"
    by (simp add: local_png_run_def local_run_def no_flags_def Ext_def)
  with target_format_is_extension [OF call] call show ?thesis by simp
qed

text \<open>
  C3. In the options handed to \<open>Transform\<close>, the width is the header's width when
  the requested width is 0 and the requested width otherwise, and the same holds,
  independently, for the height. With both requested as 0 the target size is the size in
  the header.
\<close>

theorem sized_from_header:
  assumes "ETransform dec opts n r \<in> set (snd (resize e g i))"
  shows "\<exists>header. Header e dec = Inr header
           \<and> Width opts = (if outputWidth g = 0 then width header else outputWidth g)
           \<and> Height opts = (if outputHeight g = 0 then height header else outputHeight g)
           \<and> (outputWidth g = 0 \<and> outputHeight g = 0 \<longrightarrow>
                Width opts = width header \<and> Height opts = height header)"
proof -
  from transform_call [OF assms] obtain h where
    h: "Header e dec = Inr h" and
    opts: "opts = transform_options e (default_size g h)
             (output_type (Description e dec) (Sprint i ''-'' (outputFilename g)))"
    by blast
  have "Width opts = (if outputWidth g = 0 then width h else outputWidth g)"
    by (simp add: opts transform_options_def default_size_def Let_def)
  moreover have "Height opts = (if outputHeight g = 0 then height h else outputHeight g)"
    by (simp add: opts transform_options_def default_size_def Let_def)
  ultimately show ?thesis using h by auto
qed

theorem sized_from_header_witness:
  "ETransform 1 png_options 52428800 (Inr [1, 2, 3])
     \<in> set (snd (resize sample_env local_png_run 0))
   \<and> outputWidth local_png_run = 800 \<and> outputHeight local_png_run = 0
   \<and> Header sample_env 1 = Inr \<lparr>width = 4000, height = 3000\<rparr>
   \<and> Width png_options = 800 \<and> Height png_options = 3000"
proof -
  have call: "ETransform 1 png_options 52428800 (Inr [1, 2, 3])
                \<in> set (snd (resize sample_env local_png_run 0))"
    by (simp add: sample_png_trace)
  have given: "outputWidth local_png_run = 800 \<and> outputHeight local_png_run = 0
               \<and> Header sample_env 1 = Inr \<lparr>width = 4000, height = 3000\<rparr>"
    by (simp add: local_png_run_def local_run_def no_flags_def sample_env_def)
  from sized_from_header [OF call] given call show ?thesis by auto
qed

text \<open>
  C8. The table gives quality 85 for \<open>.jpeg\<close>, compression level 7 for \<open>.png\<close>
  and quality 85 for \<open>.webp\<close>; for any other extension the lookup gives the map
  without entries, and it is a total function. The options handed to \<open>Transform\<close>
  are the table's entry for the target format.
\<close>

theorem encode_options_table:
  "selectOptions k ''.jpeg'' = [JpegQuality k \<mapsto> 85]
   \<and> selectOptions k ''.png'' = [PngCompression k \<mapsto> 7]
   \<and> selectOptions k ''.webp'' = [WebpQuality k \<mapsto> 85]
   \<and> (ext \<notin> {''.jpeg'', ''.png'', ''.webp''} \<longrightarrow> selectOptions k ext = Map.empty)
   \<and> (ETransform dec opts n r \<in> set (snd (resize e g i)) \<longrightarrow>
        EncodeOptions opts = selectOptions (keys e) (FileType opts))"
  using transform_call [of dec opts n r e g i]
  by (auto simp: selectOptions_def EncodeOptionsTable_def transform_options_def)

theorem encode_options_table_witness:
  "''.gif'' \<notin> {''.jpeg'', ''.png'', ''.webp''}
   \<and> selectOptions sample_keys ''.gif'' = Map.empty
   \<and> selectOptions sample_keys ''.png'' = [16 \<mapsto> 7]
   \<and> ETransform 1 png_options 52428800 (Inr [1, 2, 3])
        \<in> set (snd (resize sample_env local_png_run 0))
   \<and> EncodeOptions png_options = selectOptions (keys sample_env) (FileType png_options)"
  using encode_options_table
    [of sample_keys "''.gif''" 1 png_options 52428800 "Inr [1, 2, 3]" sample_env local_png_run 0]
  by (simp add: sample_png_trace sample_keys_def)

subsection \<open>Output name\<close>

text \<open>
  C10. Every name the invocation checks with \<open>os.Stat\<close> or writes with
  \<open>ioutil.WriteFile\<close> is the decimal rendering of the worker index, a dash and the
  output name the caller gave. The rendering read back as a numeral is the index, so
  two workers use the same name only if they have the same index. The name is never
  empty, so the test of line 150 fails and the name of lines 149-152 is this name, never
  \<open>resized\<close> and an extension.
\<close>

theorem output_name_is_prefixed:
  "(\<forall>name \<in> set (concat (map file_names (snd (resize e g i)))).
      name = Itoa i @ ''-'' @ outputFilename g)
   \<and> Atoi (Itoa i) = i
   \<and> (Itoa i @ ''-'' @ outputFilename g = Itoa j @ ''-'' @ outputFilename g) = (i = j)
   \<and> Itoa i @ ''-'' @ outputFilename g \<noteq> []
   \<and> output_name (Sprint i ''-'' (outputFilename g)) (inputFilename g)
       = Itoa i @ ''-'' @ outputFilename g"
proof -
  have name: "output_name (Sprint i ''-'' (outputFilename g)) (inputFilename g)
                = Itoa i @ ''-'' @ outputFilename g"
    using Sprint_nonempty [of i "''-''" "outputFilename g"]
    by (simp add: output_name_def Sprint_def)
  have same: "(Itoa i @ ''-'' @ outputFilename g = Itoa j @ ''-'' @ outputFilename g) = (i = j)"
    using Itoa_inject [of i j] by auto
  show ?thesis using resize_names [of _ e g i] same by (auto simp: name Atoi_Itoa)
qed

theorem output_name_is_prefixed_witness:
  "concat (map file_names (snd (resize sample_env local_png_run 12)))
       = [''12-out.png'', ''12-out.png'']
   \<and> Itoa 12 @ ''-'' @ outputFilename local_png_run = ''12-out.png''
   \<and> Atoi ''12'' = 12
   \<and> Itoa 12 @ ''-'' @ outputFilename local_png_run
       \<noteq> Itoa 0 @ ''-'' @ outputFilename local_png_run
   \<and> output_name (Sprint 12 ''-'' (outputFilename local_png_run)) (inputFilename local_png_run)
       = ''12-out.png''"
proof -
  have twelve: "Itoa 12 = ''12''"
    by (simp add: Itoa_def digits.simps digit_char_def)
  have s: "Itoa 12 @ ''-'' @ outputFilename local_png_run = ''12-out.png''"
    by (simp add: twelve local_png_run_def local_run_def no_flags_def)
  have n: "concat (map file_names (snd (resize sample_env local_png_run 12)))
             = [''12-out.png'', ''12-out.png'']"
    by (simp add: resize_defs local_png_run_def local_run_def no_flags_def sample_env_def
        output_type_def output_name_def default_size_def transform_options_def
        Sprint_def twelve)
  from output_name_is_prefixed [of sample_env local_png_run 12 0] s n twelve
  show ?thesis by simp
qed

subsection \<open>Order of the steps and release of the decoder\<close>

text \<open>
  C5. The steps an invocation takes are an initial stretch of acquire, detect, read
  header, transform, write, in this order and each at most once. After a call that
  fails the invocation only prints and runs its deferred calls. Every image written to
  a file is the image a successful \<open>Transform\<close> returned.
\<close>

theorem steps_in_order:
  "prefix (steps (snd (resize e g i))) all_steps
   \<and> stops_at_failure (snd (resize e g i))
   \<and> (\<forall>name img perm r. EWriteFile name img perm r \<in> set (snd (resize e g i)) \<longrightarrow>
        (\<exists>dec opts n. ETransform dec opts n (Inr img) \<in> set (snd (resize e g i))))"
  using resize_steps resize_stops resize_blob by blast

theorem steps_in_order_witness:
  "steps (snd (resize sample_env local_png_run 0)) = all_steps
   \<and> stops_at_failure (snd (resize sample_env local_png_run 0))
   \<and> EWriteFile ''0-out.png'' [1, 2, 3] 256 None \<in> set (snd (resize sample_env local_png_run 0))
   \<and> ETransform 1 png_options 52428800 (Inr [1, 2, 3])
        \<in> set (snd (resize sample_env local_png_run 0))
   \<and> steps (snd (resize env_404 remote_run 0)) = [StepAcquire, StepDetect]
   \<and> \<not> stops_at_failure [EReadFile ''in.jpg'' (Inl ''no such file''), ENewDecoder [] (Inr 1)]"
proof -
  have bad: "steps (snd (resize env_404 remote_run 0)) = [StepAcquire, StepDetect]"
    by (simp add: resize_defs steps_def remote_run_def no_flags_def env_404_def
        sample_env_def not_found_def)
  from steps_in_order [of sample_env local_png_run 0] bad
  show ?thesis by (simp add: sample_png_trace steps_def all_steps_def)
qed

text \<open>
  C6, as the program has it. When detection gives a decoder, the invocation closes it
  exactly once on every path, and the close is its last call before \<open>wg.Done()\<close>:
  every other call of the invocation, the write of the output file and the release of
  the image operations included, comes before it.
\<close>

theorem decoder_released:
  assumes "ENewDecoder buf (Inr dec) \<in> set (snd (resize e g i))"
  shows "\<exists>pre. snd (resize e g i) = pre @ [EDecoderClose dec, EWgDone]
           \<and> (\<forall>d. EDecoderClose d \<notin> set pre)"
proof -
  let ?out = "Sprint i ''-'' (outputFilename g)"
  have "\<exists>front b. snd (resize e g i) = front @ snd (resize_detect e g ?out b) @ [EWgDone]
          \<and> ENewDecoder buf (Inr dec) \<in> set (snd (resize_detect e g ?out b))
          \<and> (\<forall>d. EDecoderClose d \<notin> set front)"
  proof (cases "inputFilename g = []")
    case False
    show ?thesis
    proof (cases "ReadFile e (inputFilename g)")
      case (Inl err)
      with False assms show ?thesis by (simp add: resize_trace)
    next
      case (Inr b)
      with False assms have
        "snd (resize e g i)
           = [EReadFile (inputFilename g) (Inr b)] @ snd (resize_detect e g ?out b) @ [EWgDone]"
        and "ENewDecoder buf (Inr dec) \<in> set (snd (resize_detect e g ?out b))"
        by (simp_all add: resize_trace)
      moreover have "\<forall>d. EDecoderClose d \<notin> set [EReadFile (inputFilename g) (Inr b)]"
        by simp
      ultimately show ?thesis by blast
    qed
  next
    case True
    show ?thesis
    proof (cases "remoteInput g = []")
      case empty: True
      with True assms show ?thesis by (simp add: resize_trace)
    next
      case False
      let ?fetch = "readRemoteURL e (remoteInput g)"
      show ?thesis
      proof (cases "fst ?fetch")
        case (Inl err)
        with True False assms remote_no_decoder [of buf "Inr dec" e "remoteInput g"]
        show ?thesis by (simp add: resize_trace)
      next
        case (Inr b)
        with True False assms remote_no_decoder [of buf "Inr dec" e "remoteInput g"] have
          "snd (resize e g i) = snd ?fetch @ snd (resize_detect e g ?out b) @ [EWgDone]"
          and "ENewDecoder buf (Inr dec) \<in> set (snd (resize_detect e g ?out b))"
          by (simp_all add: resize_trace)
        moreover have "\<forall>d. EDecoderClose d \<notin> set (snd ?fetch)"
          using remote_no_decoder by blast
        ultimately show ?thesis by blast
      qed
    qed
  qed
  then obtain front b where
    tr: "snd (resize e g i) = front @ snd (resize_detect e g ?out b) @ [EWgDone]" and
    opened: "ENewDecoder buf (Inr dec) \<in> set (snd (resize_detect e g ?out b))" and
    front: "\<forall>d. EDecoderClose d \<notin> set front"
    by blast
  from detect_release [OF opened] obtain pre where
    pre: "snd (resize_detect e g ?out b) = pre @ [EDecoderClose dec]" and
    none: "\<forall>d'. EDecoderClose d' \<notin> set pre"
    by blast
  have "snd (resize e g i) = (front @ pre) @ [EDecoderClose dec, EWgDone]"
    by (simp add: tr pre)
  moreover have "\<forall>d. EDecoderClose d \<notin> set (front @ pre)"
    using front none by simp
  ultimately show ?thesis by blast
qed

theorem decoder_released_witness:
  "ENewDecoder [0xFF, 0xD8] (Inr 1) \<in> set (snd (resize sample_env local_png_run 0))
   \<and> (\<exists>pre. snd (resize sample_env local_png_run 0) = pre @ [EDecoderClose 1, EWgDone]
         \<and> (\<forall>d. EDecoderClose d \<notin> set pre))"
proof -
  have opened: "ENewDecoder [0xFF, 0xD8] (Inr 1) \<in> set (snd (resize sample_env local_png_run 0))"
    by (simp add: sample_png_trace)
  from decoder_released [OF opened] opened show ?thesis by blast
qed

text \<open>
  The claim as the specification states it fails: on the run that succeeds, the output
  file is written first and the decoder is closed afterwards, after the image operations.
\<close>

theorem close_follows_write:
  "drop 8 (snd (resize sample_env local_png_run 0))
     = [EWriteFile ''0-out.png'' [1, 2, 3] 256 None,
        EPrintf (Written ''0-out.png''),
        EOpsClose,
        EDecoderClose 1,
        EWgDone]"
  by (simp add: sample_png_trace)

end
